theory Spec2Isabelle
  imports Main
begin

section \<open>Forward\_Logs.py: incremental forwarding of table rows to syslog\<close>

text \<open>
  The program reads two configuration files, keeps one offset per table in the text
  file \<^verbatim>\<open>SQL.state\<close>, fetches every configured table in full and sends the rows
  beyond the stored offset to a syslog server.

  What the model covers. The state file is modelled as its text (absent, or a string),
  so that \<^verbatim>\<open>read_state\<close> and \<^verbatim>\<open>update_state\<close> are the parser and the printer
  the source has. A character is a code point below 256. Integers are unbounded, as in
  Python. The exceptions of the language's own data operations (\<^verbatim>\<open>int()\<close>, tuple
  unpacking) are results of the model, and so is \<^verbatim>\<open>pyodbc.Error\<close>, which the source
  catches, and the \<^verbatim>\<open>TypeError\<close> of a call with a keyword the callee does not have.
  The logger \<^verbatim>\<open>SyslogLogger\<close> is one object for the whole process: the state counts
  the handlers attached to it, and a call of \<^verbatim>\<open>logger.info\<close> sends one record through
  each of them. A record is taken as its message, without the time stamp the formatter
  puts in front. What the operating system does is taken as given: the configuration
  files can be opened and the host name resolves. The console output (\<^verbatim>\<open>print\<close>) is
  left out: it changes nothing the program reads again.
\<close>

subsection \<open>Python's string operations\<close>

text \<open>\<^verbatim>\<open>str.isspace\<close> on the code points below 256.\<close>

definition py_isspace :: "char \<Rightarrow> bool" where
  "py_isspace c =
     (let n = (of_char c :: nat)
      in (9 \<le> n \<and> n \<le> 13) \<or> (28 \<le> n \<and> n \<le> 32) \<or> n = 133 \<or> n = 160)"

text \<open>Removing the characters of a class from both ends of a string.\<close>

definition strip_where :: "(char \<Rightarrow> bool) \<Rightarrow> string \<Rightarrow> string" where
  "strip_where P s = rev (dropWhile P (rev (dropWhile P s)))"

text \<open>\<^verbatim>\<open>s.strip()\<close>: leading and trailing whitespace removed.\<close>

definition py_strip :: "string \<Rightarrow> string" where
  "py_strip s = strip_where py_isspace s"

text \<open>\<^verbatim>\<open>s.split(':')\<close>: the fields between the colons; never an empty list.\<close>

fun py_split :: "string \<Rightarrow> string list" where
  "py_split [] = [[]]"
| "py_split (c # cs) =
     (if c = CHR '':'' then [] # py_split cs
      else (case py_split cs of
              [] \<Rightarrow> [[c]]
            | w # ws \<Rightarrow> (c # w) # ws))"

text \<open>\<^verbatim>\<open>sep.join(xs)\<close>.\<close>

fun py_join :: "string \<Rightarrow> string list \<Rightarrow> string" where
  "py_join sep [] = []"
| "py_join sep [x] = x"
| "py_join sep (x # y # ys) = x @ sep @ py_join sep (y # ys)"

text \<open>
  Iterating over a text file opened with the default \<^verbatim>\<open>newline=None\<close>: a line ends at
  \<^verbatim>\<open>\n\<close>, \<^verbatim>\<open>\r\n\<close> or \<^verbatim>\<open>\r\<close>, each handed over as \<^verbatim>\<open>\n\<close>; the last line may
  have no terminator. The first argument is the line read so far.
\<close>

fun file_lines_from :: "string \<Rightarrow> string \<Rightarrow> string list" where
  "file_lines_from cur [] = (if cur = [] then [] else [cur])"
| "file_lines_from cur (c # cs) =
     (if c = CHR 0x0A then (cur @ [CHR 0x0A]) # file_lines_from [] cs
      else if c = CHR 0x0D then
        (case cs of
           [] \<Rightarrow> [cur @ [CHR 0x0A]]
         | d # ds \<Rightarrow>
             if d = CHR 0x0A then (cur @ [CHR 0x0A]) # file_lines_from [] ds
             else (cur @ [CHR 0x0A]) # file_lines_from [] cs)
      else file_lines_from (cur @ [c]) cs)"

definition file_lines :: "string \<Rightarrow> string list" where
  "file_lines text = file_lines_from [] text"

subsection \<open>Python's integers as text\<close>

definition is_digit :: "char \<Rightarrow> bool" where
  "is_digit c = (48 \<le> (of_char c :: nat) \<and> (of_char c :: nat) \<le> 57)"

definition digit_val :: "char \<Rightarrow> int" where
  "digit_val c = int (of_char c) - 48"

definition digit_char :: "nat \<Rightarrow> char" where
  "digit_char d = char_of (48 + d)"

text \<open>
  The digits of \<^verbatim>\<open>int(s)\<close> in base ten: at least one digit, single underscores
  between digits only. \<open>acc\<close> is the value read so far, \<open>prev\<close> tells whether the
  previous character was a digit.
\<close>

fun py_digits :: "int \<Rightarrow> bool \<Rightarrow> string \<Rightarrow> int option" where
  "py_digits acc prev [] = (if prev then Some acc else None)"
| "py_digits acc prev (c # cs) =
     (if is_digit c then py_digits (10 * acc + digit_val c) True cs
      else if c = CHR ''_'' \<and> prev then py_digits acc False cs
      else None)"

text \<open>
  The whitespace \<^verbatim>\<open>int\<close> skips around a number. It is less than what \<^verbatim>\<open>strip\<close>
  removes: the separators \<^verbatim>\<open>\x1c\<close> to \<^verbatim>\<open>\x1f\<close> are whitespace for \<^verbatim>\<open>strip\<close> and
  an error for \<^verbatim>\<open>int\<close>.
\<close>

definition int_isspace :: "char \<Rightarrow> bool" where
  "int_isspace c =
     (let n = (of_char c :: nat)
      in (9 \<le> n \<and> n \<le> 13) \<or> n = 32 \<or> n = 133 \<or> n = 160)"

text \<open>
  \<^verbatim>\<open>int(s)\<close>: surrounding whitespace is dropped, one sign is allowed; \<open>None\<close> is
  \<^verbatim>\<open>ValueError\<close>. (The interpreter's limit on the number of digits is not modelled.)
\<close>

definition py_int :: "string \<Rightarrow> int option" where
  "py_int s =
     (case strip_where int_isspace s of
        [] \<Rightarrow> None
      | c # cs \<Rightarrow>
          if c = CHR ''-'' then map_option uminus (py_digits 0 False cs)
          else if c = CHR ''+'' then py_digits 0 False cs
          else py_digits 0 False (c # cs))"

text \<open>\<^verbatim>\<open>str(n)\<close> for an integer: decimal digits, a minus sign when negative.\<close>

fun dec :: "nat \<Rightarrow> string" where
  "dec n = (if n < 10 then [digit_char n] else dec (n div 10) @ [digit_char (n mod 10)])"

declare dec.simps [simp del]

definition py_str :: "int \<Rightarrow> string" where
  "py_str i = (if i < 0 then CHR ''-'' # dec (nat (- i)) else dec (nat i))"

text \<open>
  \<^verbatim>\<open>xs[i:]\<close>: a negative start counts from the end and is clipped at the beginning of
  the list.
\<close>

definition py_slice_from :: "'a list \<Rightarrow> int \<Rightarrow> 'a list" where
  "py_slice_from xs i =
     (if i < 0 then drop (nat (int (length xs) + i)) xs else drop (nat i) xs)"

subsection \<open>Dictionaries\<close>

text \<open>
  A Python \<^verbatim>\<open>dict\<close> keeps its keys in insertion order, which is the order
  \<^verbatim>\<open>update_state\<close> writes the file in: an association list with one pair per key.
  \<^verbatim>\<open>d[k] = v\<close> replaces the value of a key in place and appends a new key.
\<close>

type_synonym ('k, 'v) dict = "('k \<times> 'v) list"

fun dict_set :: "'k \<Rightarrow> 'v \<Rightarrow> ('k, 'v) dict \<Rightarrow> ('k, 'v) dict" where
  "dict_set k v [] = [(k, v)]"
| "dict_set k v ((k', v') # kvs) =
     (if k' = k then (k, v) # kvs else (k', v') # dict_set k v kvs)"

text \<open>\<^verbatim>\<open>d.get(k, default)\<close>.\<close>

definition dict_get :: "('k, 'v) dict \<Rightarrow> 'k \<Rightarrow> 'v \<Rightarrow> 'v" where
  "dict_get d k dflt = (case map_of d k of None \<Rightarrow> dflt | Some v \<Rightarrow> v)"

subsection \<open>Data\<close>

text \<open>
  An entry of \<^verbatim>\<open>Login.json\<close> (the fields the program reads), and a table job as
  \<^verbatim>\<open>load_table_configs\<close> builds it. A row is the list of its column values, each
  as \<^verbatim>\<open>str\<close> renders it.
\<close>

record server_config =
  cfg_server_ip :: string
  cfg_user :: string

record table_config =
  server_ip :: string
  user :: string
  database :: string
  table :: string

type_synonym row = "string list"

datatype py_error = ValueError | TypeError

text \<open>
  What the database does when a job is fetched: the step that raises
  \<^verbatim>\<open>pyodbc.Error\<close>, or the rows \<^verbatim>\<open>fetchall\<close> returns.
\<close>

datatype fetch_outcome =
  ConnectError | CursorError | ExecuteError | FetchallError | Rows "row list"

text \<open>
  What the probe of the syslog port does: the code \<^verbatim>\<open>connect_ex\<close> returns, or an
  exception.
\<close>

datatype ping_outcome = ConnectEx int | PingException

text \<open>
  The surroundings of a run: the two configuration files, the identity of the local
  host, the syslog port and the databases. \<open>db env n job\<close> is the outcome of the fetch
  of \<open>job\<close> when \<open>n\<close> fetches have been made before.
\<close>

record env =
  login_json :: "server_config list"
  tables_txt :: string
  hostname :: string
  ip_address :: string
  ping :: ping_outcome
  db :: "nat \<Rightarrow> table_config \<Rightarrow> fetch_outcome"

text \<open>
  What a run changes: the state file (\<open>None\<close> while it does not exist), the records
  sent to the syslog server in order, the number of fetches made (password prompts),
  the number of database connections opened and not closed, and the number of handlers
  attached to the logger \<^verbatim>\<open>SyslogLogger\<close>.
\<close>

record world =
  state_file :: "string option"
  syslog :: "string list"
  fetches :: nat
  open_conns :: nat
  handlers :: nat

subsection \<open>Configuration\<close>

text \<open>The dictionary \<^verbatim>\<open>{config['server_ip']: config for config in server_configs}\<close>.\<close>

definition server_dict_of :: "server_config list \<Rightarrow> (string, server_config) dict" where
  "server_dict_of server_configs =
     foldl (\<lambda>d config. dict_set (cfg_server_ip config) config d) [] server_configs"

text \<open>
  The loop of \<^verbatim>\<open>load_table_configs\<close> over the lines of \<^verbatim>\<open>Tables.txt\<close>. Unpacking a
  line that has not exactly three fields raises \<^verbatim>\<open>ValueError\<close>.
\<close>

fun load_table_lines ::
  "(string, server_config) dict \<Rightarrow> table_config list \<Rightarrow> string list \<Rightarrow>
   py_error + table_config list" where
  "load_table_lines server_dict table_configs [] = Inr table_configs"
| "load_table_lines server_dict table_configs (line # rest) =
     (let parts = py_split (py_strip line)
      in if length parts \<noteq> 3 then Inl ValueError
         else
           (let server_ip = parts ! 0; db_name = parts ! 1; table_name = parts ! 2
            in case map_of server_dict server_ip of
                 Some config \<Rightarrow>
                   load_table_lines server_dict
                     (table_configs @
                        [\<lparr>server_ip = cfg_server_ip config, user = cfg_user config,
                          database = db_name, table = table_name\<rparr>])
                     rest
               | None \<Rightarrow> load_table_lines server_dict table_configs rest))"

definition load_table_configs :: "env \<Rightarrow> py_error + table_config list" where
  "load_table_configs e =
     load_table_lines (server_dict_of (login_json e)) [] (file_lines (tables_txt e))"

subsection \<open>The state file\<close>

text \<open>One line \<^verbatim>\<open>table:rows\<close> per entry, as both writers of the file print it.\<close>

definition state_line :: "string \<Rightarrow> int \<Rightarrow> string" where
  "state_line t n = t @ '':'' @ py_str n @ [CHR 0x0A]"

definition create_state_file :: "table_config list \<Rightarrow> world \<Rightarrow> world" where
  "create_state_file table_configs w =
     (if state_file w = None
      then w\<lparr>state_file := Some (concat (map (\<lambda>config. state_line (table config) 0) table_configs))\<rparr>
      else w)"

text \<open>
  The loop of \<^verbatim>\<open>read_state\<close>: a line with two fields sets an entry, \<^verbatim>\<open>int\<close> may
  raise, any other line is passed over.
\<close>

fun read_state_lines ::
  "(string, int) dict \<Rightarrow> string list \<Rightarrow> py_error + (string, int) dict" where
  "read_state_lines state [] = Inr state"
| "read_state_lines state (line # rest) =
     (let parts = py_split (py_strip line)
      in if length parts = 2
         then (case py_int (parts ! 1) of
                 None \<Rightarrow> Inl ValueError
               | Some last_rows_read \<Rightarrow>
                   read_state_lines (dict_set (parts ! 0) last_rows_read state) rest)
         else read_state_lines state rest)"

definition read_state :: "world \<Rightarrow> py_error + (string, int) dict" where
  "read_state w =
     (case state_file w of
        None \<Rightarrow> Inr []
      | Some text \<Rightarrow> read_state_lines [] (file_lines text))"

definition write_state :: "(string, int) dict \<Rightarrow> string" where
  "write_state state = concat (map (\<lambda>(t, rows). state_line t rows) state)"

definition update_state :: "string \<Rightarrow> int \<Rightarrow> world \<Rightarrow> (py_error + unit) \<times> world" where
  "update_state table_name last_rows_read w =
     (case read_state w of
        Inl err \<Rightarrow> (Inl err, w)
      | Inr state \<Rightarrow>
          (Inr (), w\<lparr>state_file := Some (write_state (dict_set table_name last_rows_read state))\<rparr>))"

subsection \<open>Fetching\<close>

text \<open>
  \<^verbatim>\<open>fetch_data_from_db\<close>: the state is read inside the \<^verbatim>\<open>try\<close>, whose handler
  catches \<^verbatim>\<open>pyodbc.Error\<close> only. The connection is closed on the line after
  \<^verbatim>\<open>fetchall\<close>; the handler returns the empty list.
\<close>

definition fetch_data_from_db ::
  "env \<Rightarrow> table_config \<Rightarrow> world \<Rightarrow> (py_error + row list) \<times> world" where
  "fetch_data_from_db e config w =
     (case read_state w of
        Inl err \<Rightarrow> (Inl err, w)
      | Inr state \<Rightarrow>
          (let prompted = w\<lparr>fetches := fetches w + 1\<rparr>;
               connected = prompted\<lparr>open_conns := open_conns prompted + 1\<rparr>
           in case db e (fetches w) config of
                ConnectError \<Rightarrow> (Inr [], prompted)
              | CursorError \<Rightarrow> (Inr [], connected)
              | ExecuteError \<Rightarrow> (Inr [], connected)
              | FetchallError \<Rightarrow> (Inr [], connected)
              | Rows rows \<Rightarrow> (Inr rows, connected\<lparr>open_conns := open_conns connected - 1\<rparr>)))"

definition ping_syslog_server :: "env \<Rightarrow> bool" where
  "ping_syslog_server e = (case ping e of ConnectEx result \<Rightarrow> result = 0 | PingException \<Rightarrow> False)"

subsection \<open>Forwarding\<close>

definition message_prefix :: "env \<Rightarrow> table_config \<Rightarrow> string" where
  "message_prefix e config =
     hostname e @ '' ('' @ ip_address e @ '') ['' @ server_ip config @ ''] | '' @
     database config @ '' | '' @ table config @ '' | ''"

definition summary_message :: "env \<Rightarrow> table_config \<Rightarrow> nat \<Rightarrow> string" where
  "summary_message e config row_count =
     message_prefix e config @ ''Rows Read: '' @ py_str (int row_count)"

definition row_message :: "env \<Rightarrow> table_config \<Rightarrow> row \<Rightarrow> string" where
  "row_message e config r = message_prefix e config @ py_join '' | '' r"

text \<open>
  The keyword parameters of \<^verbatim>\<open>logging.handlers.SysLogHandler\<close> in the standard
  library, and a call of the constructor with the keywords given: a keyword that is not
  a parameter raises \<^verbatim>\<open>TypeError\<close>.
\<close>

definition SysLogHandler_parameters :: "string list" where
  "SysLogHandler_parameters = [''address'', ''facility'', ''socktype'']"

definition SysLogHandler :: "string list \<Rightarrow> py_error + unit" where
  "SysLogHandler keywords =
     (if list_all (\<lambda>keyword. keyword \<in> set SysLogHandler_parameters) keywords
      then Inr () else Inl TypeError)"

text \<open>\<^verbatim>\<open>logger.info(message)\<close>: every handler attached to the logger sends the record.\<close>

definition logger_info :: "world \<Rightarrow> string \<Rightarrow> string list" where
  "logger_info w message = replicate (handlers w) message"

text \<open>
  \<^verbatim>\<open>send_to_syslog\<close>. The handler is constructed with the keywords \<^verbatim>\<open>address\<close> and
  \<^verbatim>\<open>ssl\<close> before anything else is done; were it constructed, it would be attached to
  the logger in addition to those of earlier calls, and the state would be read.
\<close>

definition send_to_syslog ::
  "env \<Rightarrow> row list \<Rightarrow> table_config \<Rightarrow> world \<Rightarrow> (py_error + unit) \<times> world" where
  "send_to_syslog e data config w =
     (case SysLogHandler [''address'', ''ssl''] of
        Inl err \<Rightarrow> (Inl err, w)
      | Inr syslog_handler \<Rightarrow>
          (let attached = w\<lparr>handlers := handlers w + 1\<rparr>
           in case read_state attached of
                Inl err \<Rightarrow> (Inl err, attached)
              | Inr state \<Rightarrow>
                  (let last_rows_read = dict_get state (table config) 0
                   in if int (length data) > last_rows_read
                      then
                        (let new_data = py_slice_from data last_rows_read;
                             row_count = length new_data;
                             logged = attached\<lparr>syslog := syslog attached
                               @ logger_info attached (summary_message e config row_count)
                               @ concat (map (\<lambda>r. logger_info attached (row_message e config r))
                                           new_data)\<rparr>
                         in update_state (table config) (last_rows_read + int row_count) logged)
                      else (Inr (), attached))))"

subsection \<open>The run\<close>

fun run_jobs :: "env \<Rightarrow> table_config list \<Rightarrow> world \<Rightarrow> (py_error + unit) \<times> world" where
  "run_jobs e [] w = (Inr (), w)"
| "run_jobs e (config # rest) w =
     (case fetch_data_from_db e config w of
        (Inl err, w') \<Rightarrow> (Inl err, w')
      | (Inr data, w') \<Rightarrow>
          if data \<noteq> []
          then (case send_to_syslog e data config w' of
                  (Inl err, w'') \<Rightarrow> (Inl err, w'')
                | (Inr u, w'') \<Rightarrow> run_jobs e rest w'')
          else run_jobs e rest w')"

definition main :: "env \<Rightarrow> world \<Rightarrow> (py_error + unit) \<times> world" where
  "main e w =
     (case load_table_configs e of
        Inl err \<Rightarrow> (Inl err, w)
      | Inr table_configs \<Rightarrow>
          (let w1 = create_state_file table_configs w
           in if \<not> ping_syslog_server e then (Inr (), w1)
              else run_jobs e table_configs w1))"

subsection \<open>Observations used in the statements\<close>

text \<open>
  The offset the program holds for a table: what \<^verbatim>\<open>state.get(table, 0)\<close> gives on the
  result of \<^verbatim>\<open>read_state()\<close>, the first two lines of the body of
  \<^verbatim>\<open>send_to_syslog\<close> after the logger is set up.
\<close>

definition stored_offset :: "world \<Rightarrow> string \<Rightarrow> py_error + int" where
  "stored_offset w t =
     (case read_state w of Inl err \<Rightarrow> Inl err | Inr state \<Rightarrow> Inr (dict_get state t 0))"

text \<open>
  The entry of a table in the dictionary \<^verbatim>\<open>read_state()\<close> returns; \<open>None\<close> when the
  dictionary has no such key.
\<close>

definition stored_entry :: "world \<Rightarrow> string \<Rightarrow> py_error + int option" where
  "stored_entry w t =
     (case read_state w of Inl err \<Rightarrow> Inl err | Inr state \<Rightarrow> Inr (map_of state t))"

text \<open>The records one call of \<^verbatim>\<open>send_to_syslog\<close> adds to those sent before.\<close>

definition emitted ::
  "env \<Rightarrow> row list \<Rightarrow> table_config \<Rightarrow> world \<Rightarrow> string list" where
  "emitted e data config w =
     drop (length (syslog w)) (syslog (snd (send_to_syslog e data config w)))"

text \<open>The outcomes of a fetch that are a \<^verbatim>\<open>pyodbc.Error\<close>.\<close>

fun is_pyodbc_error :: "fetch_outcome \<Rightarrow> bool" where
  "is_pyodbc_error (Rows rows) = False"
| "is_pyodbc_error outcome = True"

text \<open>The fields of the lines of \<^verbatim>\<open>Tables.txt\<close>, in file order.\<close>

definition binding_lines :: "env \<Rightarrow> string list list" where
  "binding_lines e = map (\<lambda>line. py_split (py_strip line)) (file_lines (tables_txt e))"

text \<open>The three fields of a binding line as a job carries them.\<close>

definition job_fields :: "table_config \<Rightarrow> string list" where
  "job_fields config = [server_ip config, database config, table config]"

text \<open>Whether a binding names a server of \<^verbatim>\<open>Login.json\<close>.\<close>

definition resolved :: "env \<Rightarrow> string list \<Rightarrow> bool" where
  "resolved e parts = (hd parts \<in> cfg_server_ip ` set (login_json e))"

text \<open>
  A table name that a line of the state file gives back as it is: without a colon or a
  line break, and not starting with whitespace.
\<close>

definition plain_name :: "string \<Rightarrow> bool" where
  "plain_name t =
     (CHR '':'' \<notin> set t \<and> CHR 0x0A \<notin> set t \<and> CHR 0x0D \<notin> set t \<and>
      (case t of [] \<Rightarrow> True | c # cs \<Rightarrow> \<not> py_isspace c))"

text \<open>
  A dictionary as \<^verbatim>\<open>read_state\<close> returns it: one pair per key, and every key a name
  a line of the state file gives back.
\<close>

definition well_formed :: "(string, int) dict \<Rightarrow> bool" where
  "well_formed state = (distinct (map fst state) \<and> list_all (\<lambda>(t, n). plain_name t) state)"

subsection \<open>Example inputs\<close>

text \<open>
  The job of the binding line \<^verbatim>\<open>10.0.0.1:SalesDB:Orders\<close>, and the job of
  \<^verbatim>\<open>10.0.0.1:SalesDB: Orders\<close>, written with a blank after the second colon.
\<close>

definition orders_job :: table_config where
  "orders_job =
     \<lparr>server_ip = ''10.0.0.1'', user = ''svc'', database = ''SalesDB'', table = ''Orders''\<rparr>"

definition spaced_job :: table_config where
  "spaced_job =
     \<lparr>server_ip = ''10.0.0.1'', user = ''svc'', database = ''SalesDB'', table = '' Orders''\<rparr>"

definition three_rows :: "row list" where
  "three_rows = [[''1'', ''a''], [''2'', ''b''], [''3'', ''c'']]"

definition failing_query_db :: "nat \<Rightarrow> table_config \<Rightarrow> fetch_outcome" where
  "failing_query_db n config = ExecuteError"

definition answering_db :: "nat \<Rightarrow> table_config \<Rightarrow> fetch_outcome" where
  "answering_db n config = Rows three_rows"

text \<open>A database whose first fetch fails at the query and whose later ones answer.\<close>

definition recovering_db :: "nat \<Rightarrow> table_config \<Rightarrow> fetch_outcome" where
  "recovering_db n config = (if n = 0 then ExecuteError else Rows three_rows)"

definition example_env ::
  "string \<Rightarrow> ping_outcome \<Rightarrow> (nat \<Rightarrow> table_config \<Rightarrow> fetch_outcome) \<Rightarrow> env" where
  "example_env bindings p d =
     \<lparr>login_json = [\<lparr>cfg_server_ip = ''10.0.0.1'', cfg_user = ''svc''\<rparr>],
      tables_txt = bindings,
      hostname = ''host'', ip_address = ''10.0.0.9'', ping = p, db = d\<rparr>"

definition fresh_world :: "string option \<Rightarrow> world" where
  "fresh_world f =
     \<lparr>state_file = f, syslog = [], fetches = 0, open_conns = 0, handlers = 0\<rparr>"

text \<open>
  A binding file of three lines; the server of the second is not in \<^verbatim>\<open>Login.json\<close>.
\<close>

definition mixed_bindings :: string where
  "mixed_bindings =
     ''10.0.0.1:SalesDB:Orders\<newline>9.9.9.9:Other:Skipped\<newline>10.0.0.1:SalesDB: Orders\<newline>''"

section \<open>Properties\<close>

subsection \<open>The database connection\<close>

text \<open>
  C6. \<^verbatim>\<open>fetch_data_from_db\<close> closes the connection on the path where \<^verbatim>\<open>fetchall\<close>
  returns, and on no other: when the query raises after the connection was opened, the
  handler returns the empty list and the connection stays open. Evaluated for the job
  \<^verbatim>\<open>Orders\<close>: one connection is left open when the query fails, none when it answers.
\<close>

theorem fetch_error_leaves_connection_open:
  "fetch_data_from_db (example_env [] (ConnectEx 0) failing_query_db) orders_job (fresh_world None)
     = (Inr [], \<lparr>state_file = None, syslog = [], fetches = 1, open_conns = 1, handlers = 0\<rparr>)
   \<and> open_conns (snd (fetch_data_from_db (example_env [] (ConnectEx 0) answering_db) orders_job
                        (fresh_world None))) = 0"
  by code_simp

subsection \<open>The probe of the syslog port\<close>

text \<open>
  C2 as the code has it. When the probe fails, \<^verbatim>\<open>main\<close> returns before the loop over
  the jobs: nothing is fetched, nothing is sent, no connection is opened, and a state file
  that exists is left as it is. But \<^verbatim>\<open>create_state_file\<close> runs before the probe: when
  there was no state file, the run has created it, with one line \<^verbatim>\<open>table:0\<close> for each
  job.
\<close>

theorem main_sink_unreachable:
  assumes "\<not> ping_syslog_server e"
  shows "syslog (snd (main e w)) = syslog w \<and>
         fetches (snd (main e w)) = fetches w \<and>
         open_conns (snd (main e w)) = open_conns w \<and>
         (state_file w \<noteq> None \<longrightarrow> snd (main e w) = w) \<and>
         (state_file w = None \<longrightarrow>
            (case load_table_configs e of
               Inl err \<Rightarrow> snd (main e w) = w
             | Inr table_configs \<Rightarrow>
                 snd (main e w) =
                   w\<lparr>state_file :=
                       Some (concat (map (\<lambda>config. state_line (table config) 0) table_configs))\<rparr>))"
  using assms by (simp add: main_def create_state_file_def split: sum.splits)

theorem main_sink_unreachable_witness:
  "\<not> ping_syslog_server (example_env ''10.0.0.1:SalesDB:Orders\<newline>'' (ConnectEx 111) answering_db) \<and>
   snd (main (example_env ''10.0.0.1:SalesDB:Orders\<newline>'' (ConnectEx 111) answering_db)
          (fresh_world (Some ''Orders:5\<newline>''))) = fresh_world (Some ''Orders:5\<newline>'') \<and>
   snd (main (example_env ''10.0.0.1:SalesDB:Orders\<newline>'' (ConnectEx 111) answering_db)
          (fresh_world None)) = fresh_world (Some ''Orders:0\<newline>'')"
proof -
  let ?e = "example_env ''10.0.0.1:SalesDB:Orders\<newline>'' (ConnectEx 111) answering_db"
  have down: "\<not> ping_syslog_server ?e"
    by code_simp
  have jobs: "load_table_configs ?e = Inr [orders_job]"
    by code_simp
  have there: "state_file (fresh_world (Some ''Orders:5\<newline>'')) \<noteq> None"
    and missing: "state_file (fresh_world None) = None"
    by (simp_all add: fresh_world_def)
  have line: "state_line (table orders_job) 0 = ''Orders:0\<newline>''"
    by code_simp
  from main_sink_unreachable [OF down, of "fresh_world (Some ''Orders:5\<newline>'')"] there
  have "snd (main ?e (fresh_world (Some ''Orders:5\<newline>''))) = fresh_world (Some ''Orders:5\<newline>'')"
    by blast
  moreover
  from main_sink_unreachable [OF down, of "fresh_world None"] missing
  have "snd (main ?e (fresh_world None)) = fresh_world (Some ''Orders:0\<newline>'')"
    by (simp add: jobs line fresh_world_def)
  ultimately show ?thesis
    using down by blast
qed

text \<open>
  C2 as stated fails: with no state file and a syslog port that refuses the connection,
  the run leaves a state file behind.
\<close>

theorem main_sink_unreachable_creates_state_file:
  "\<not> ping_syslog_server (example_env ''10.0.0.1:SalesDB:Orders\<newline>'' (ConnectEx 111) answering_db) \<and>
   state_file (fresh_world None) = None \<and>
   state_file (snd (main (example_env ''10.0.0.1:SalesDB:Orders\<newline>'' (ConnectEx 111) answering_db)
                      (fresh_world None))) = Some ''Orders:0\<newline>''"
  by code_simp

subsection \<open>A fetch that fails\<close>

text \<open>
  C7. When the database raises \<^verbatim>\<open>pyodbc.Error\<close> at any step of the fetch, the fetch
  returns the empty list, the state file and the records sent are what they were, and the
  loop of \<^verbatim>\<open>main\<close> goes on with the jobs that follow. (The state is read before the
  database is contacted, so the error of the database presupposes a readable state
  file.)
\<close>

theorem fetch_error_skips_job:
  assumes "read_state w = Inr state" and "is_pyodbc_error (db e (fetches w) config)"
  shows "fst (fetch_data_from_db e config w) = Inr [] \<and>
         state_file (snd (fetch_data_from_db e config w)) = state_file w \<and>
         syslog (snd (fetch_data_from_db e config w)) = syslog w \<and>
         run_jobs e (config # rest) w = run_jobs e rest (snd (fetch_data_from_db e config w))"
  using assms
  by (cases "db e (fetches w) config") (simp_all add: fetch_data_from_db_def Let_def)

theorem fetch_error_skips_job_witness:
  "read_state (fresh_world None) = Inr [] \<and>
   is_pyodbc_error
     (db (example_env [] (ConnectEx 0) recovering_db) (fetches (fresh_world None)) spaced_job) \<and>
   syslog (snd (fetch_data_from_db (example_env [] (ConnectEx 0) recovering_db) spaced_job
                  (fresh_world None))) = [] \<and>
   syslog (snd (run_jobs (example_env [] (ConnectEx 0) recovering_db) [spaced_job, orders_job]
                  (fresh_world None)))
     = syslog (snd (run_jobs (example_env [] (ConnectEx 0) recovering_db) [orders_job]
         (snd (fetch_data_from_db (example_env [] (ConnectEx 0) recovering_db) spaced_job
                 (fresh_world None))))) \<and>
   fetches (snd (run_jobs (example_env [] (ConnectEx 0) recovering_db)
                   [spaced_job, orders_job] (fresh_world None))) = 2"
proof -
  let ?e = "example_env [] (ConnectEx 0) recovering_db"
  have readable: "read_state (fresh_world None) = Inr []"
    by code_simp
  have fails: "is_pyodbc_error (db ?e (fetches (fresh_world None)) spaced_job)"
    by code_simp
  have fetched: "fetches (snd (run_jobs ?e [spaced_job, orders_job] (fresh_world None))) = 2"
    by code_simp
  from fetch_error_skips_job [OF readable fails, of "[orders_job]"] readable fails fetched
  show ?thesis
    by (simp add: fresh_world_def)
qed

subsection \<open>Printing and parsing integers\<close>

text \<open>
  What \<^verbatim>\<open>str\<close> prints for an integer, \<^verbatim>\<open>int\<close> reads back: the digits of \<open>dec\<close> are
  digits, and the parser folds them into the number they came from.
\<close>

lemma is_digit_facts:
  assumes "is_digit c"
  shows "\<not> py_isspace c" "\<not> int_isspace c" "c \<noteq> CHR '':''" "c \<noteq> CHR 0x0A"
        "c \<noteq> CHR 0x0D" "c \<noteq> CHR ''-''" "c \<noteq> CHR ''+''" "c \<noteq> CHR ''_''"
  using assms by (auto simp: is_digit_def py_isspace_def int_isspace_def Let_def)

lemma digit_char_is_digit: "d < 10 \<Longrightarrow> is_digit (digit_char d)"
  by (simp add: is_digit_def digit_char_def)

lemma digit_val_digit_char: "d < 10 \<Longrightarrow> digit_val (digit_char d) = int d"
  by (simp add: digit_val_def digit_char_def)

lemma dec_digits: "c \<in> set (dec n) \<Longrightarrow> is_digit c"
proof (induction n arbitrary: c rule: dec.induct)
  case (1 n)
  show ?case
  proof (cases "n < 10")
    case True
    with "1.prems" show ?thesis
      by (simp add: dec.simps [of n] digit_char_is_digit)
  next
    case False
    with "1.prems" "1.IH" show ?thesis
      by (auto simp: dec.simps [of n] digit_char_is_digit)
  qed
qed

lemma dec_nonempty: "dec n \<noteq> []"
  by (simp add: dec.simps [of n])

lemma py_digits_snoc:
  "\<forall>c\<in>set ds. is_digit c \<Longrightarrow> is_digit d \<Longrightarrow>
   py_digits acc p (ds @ [d]) = map_option (\<lambda>a. 10 * a + digit_val d) (py_digits acc True ds)"
  by (induction ds arbitrary: acc p) auto

lemma py_digits_dec: "py_digits 0 True (dec n) = Some (int n)"
proof (induction n rule: dec.induct)
  case (1 n)
  show ?case
  proof (cases "n < 10")
    case True
    then show ?thesis
      by (simp add: dec.simps [of n] digit_char_is_digit digit_val_digit_char)
  next
    case False
    have "py_digits 0 True (dec (n div 10) @ [digit_char (n mod 10)])
            = map_option (\<lambda>a. 10 * a + digit_val (digit_char (n mod 10)))
                (py_digits 0 True (dec (n div 10)))"
      by (rule py_digits_snoc) (auto simp: dec_digits digit_char_is_digit)
    with False "1.IH" show ?thesis
      by (simp add: dec.simps [of n] digit_val_digit_char) presburger
  qed
qed

lemma py_digits_first: "is_digit c \<Longrightarrow> py_digits acc p (c # cs) = py_digits acc True (c # cs)"
  by simp

lemma py_digits_dec_start: "py_digits 0 False (dec n) = Some (int n)"
proof -
  obtain c cs where eq: "dec n = c # cs"
    using dec_nonempty [of n] by (cases "dec n") auto
  then have "is_digit c"
    using dec_digits [of c n] by simp
  then show ?thesis
    using py_digits_dec [of n] by (simp add: eq)
qed

lemma strip_where_id:
  assumes "s \<noteq> [] \<Longrightarrow> \<not> P (hd s)" and "s \<noteq> [] \<Longrightarrow> \<not> P (last s)"
  shows "strip_where P s = s"
proof -
  have front: "dropWhile P s = s"
    using assms(1) by (auto simp: dropWhile_eq_self_iff)
  have "dropWhile P (rev s) = rev s"
    using assms(2) by (auto simp: dropWhile_eq_self_iff hd_rev)
  with front show ?thesis
    by (simp add: strip_where_def)
qed

lemma py_strip_id:
  assumes "s \<noteq> [] \<Longrightarrow> \<not> py_isspace (hd s)" and "s \<noteq> [] \<Longrightarrow> \<not> py_isspace (last s)"
  shows "py_strip s = s"
  unfolding py_strip_def using assms by (rule strip_where_id)

lemma py_strip_snoc_space:
  assumes "py_isspace c"
  shows "py_strip (s @ [c]) = py_strip s"
proof (cases "\<forall>x\<in>set s. py_isspace x")
  case True
  then have "dropWhile py_isspace (s @ [c]) = dropWhile py_isspace [c]"
    by (intro dropWhile_append2) simp
  then have a: "dropWhile py_isspace (s @ [c]) = []"
    using assms by simp
  from True have b: "dropWhile py_isspace s = []"
    by simp
  show ?thesis
    by (simp only: py_strip_def strip_where_def a b)
next
  case False
  then have "dropWhile py_isspace (s @ [c]) = dropWhile py_isspace s @ [c]"
    by auto
  then show ?thesis
    unfolding py_strip_def strip_where_def using assms by simp
qed

lemma py_str_chars: "c \<in> set (py_str i) \<Longrightarrow> is_digit c \<or> c = CHR ''-''"
  by (auto simp: py_str_def dec_digits split: if_splits)

lemma py_str_nonempty: "py_str i \<noteq> []"
  by (simp add: py_str_def dec_nonempty)

lemma py_str_last: "is_digit (last (py_str i))"
  using dec_digits [of "last (dec n)" n for n] dec_nonempty
  by (simp add: py_str_def)

lemma py_str_hd: "is_digit (hd (py_str i)) \<or> hd (py_str i) = CHR ''-''"
  using py_str_chars [of "hd (py_str i)" i] py_str_nonempty [of i] by simp

lemma strip_where_py_str: "strip_where int_isspace (py_str i) = py_str i"
proof (rule strip_where_id)
  show "\<not> int_isspace (hd (py_str i))"
    using py_str_hd [of i] by (auto simp: is_digit_facts) (simp add: int_isspace_def)
  show "\<not> int_isspace (last (py_str i))"
    using py_str_last [of i] by (simp add: is_digit_facts)
qed

lemma py_int_py_str: "py_int (py_str i) = Some i"
proof (cases "i < 0")
  case True
  then show ?thesis
    unfolding py_int_def strip_where_py_str by (simp add: py_str_def py_digits_dec_start)
next
  case False
  obtain c cs where eq: "dec (nat i) = c # cs"
    using dec_nonempty [of "nat i"] by (cases "dec (nat i)") auto
  then have "is_digit c"
    using dec_digits [of c "nat i"] by simp
  then have "c \<noteq> CHR ''-''" "c \<noteq> CHR ''+''"
    by (simp_all add: is_digit_facts)
  with False eq show ?thesis
    unfolding py_int_def strip_where_py_str using py_digits_dec_start [of "nat i"]
    by (simp add: py_str_def)
qed

subsection \<open>Reading back what was written\<close>

text \<open>
  The state file is written one line per entry and read one line per entry. For a name
  without colon or line break that does not start with whitespace, the line read is the
  line written and its two fields are the name and the number. The dictionaries
  \<^verbatim>\<open>read_state\<close> returns have such names only, so a commit for such a name reads
  back as the dictionary that was written.
\<close>

lemma file_lines_from_line:
  "CHR 0x0A \<notin> set s \<Longrightarrow> CHR 0x0D \<notin> set s \<Longrightarrow>
   file_lines_from cur (s @ CHR 0x0A # rest) = (cur @ s @ [CHR 0x0A]) # file_lines_from [] rest"
  by (induction s arbitrary: cur) auto

lemma py_split_no_colon: "CHR '':'' \<notin> set b \<Longrightarrow> py_split b = [b]"
  by (induction b) auto

lemma py_split_colon:
  "CHR '':'' \<notin> set a \<Longrightarrow> py_split (a @ CHR '':'' # b) = a # py_split b"
  by (induction a) auto

lemma py_split_nonempty: "py_split s \<noteq> []"
  by (induction s) (auto split: list.splits)

lemma py_split_parts: "p \<in> set (py_split s) \<Longrightarrow> CHR '':'' \<notin> set p"
  by (induction s arbitrary: p) (auto split: list.splits if_splits)

lemma py_join_cons_char: "py_join sep ((c # w) # ws) = c # py_join sep (w # ws)"
  by (cases ws) simp_all

lemma py_join_py_split: "py_join '':'' (py_split s) = s"
proof (induction s)
  case Nil
  then show ?case by simp
next
  case (Cons c cs)
  obtain w ws where parts: "py_split cs = w # ws"
    using py_split_nonempty [of cs] by (cases "py_split cs") auto
  with Cons.IH show ?case
    by (simp add: py_join_cons_char)
qed

lemma py_split_two: "py_split s = [a, b] \<Longrightarrow> s = a @ CHR '':'' # b"
  using py_join_py_split [of s] by simp

lemma py_strip_subset: "x \<in> set (py_strip s) \<Longrightarrow> x \<in> set s"
  by (auto simp: py_strip_def strip_where_def dest!: set_dropWhileD)

lemma py_strip_hd:
  assumes "py_strip s \<noteq> []"
  shows "\<not> py_isspace (hd (py_strip s))"
proof -
  define t where "t = dropWhile py_isspace s"
  have strip: "py_strip s = rev (dropWhile py_isspace (rev t))"
    by (simp add: py_strip_def strip_where_def t_def)
  with assms have "t \<noteq> []"
    by auto
  then have front: "\<not> py_isspace (hd t)"
    unfolding t_def by (rule hd_dropWhile)
  have "t = rev (dropWhile py_isspace (rev t)) @ rev (takeWhile py_isspace (rev t))"
    by (metis rev_append rev_rev_ident takeWhile_dropWhile_id)
  then have "t = py_strip s @ rev (takeWhile py_isspace (rev t))"
    by (simp only: strip)
  with assms have "hd t = hd (py_strip s)"
    by (metis hd_append2)
  with front show ?thesis
    by simp
qed

lemma state_line_fields:
  assumes "plain_name t"
  shows "py_split (py_strip (state_line t n)) = [t, py_str n]"
proof -
  let ?body = "t @ CHR '':'' # py_str n"
  have "state_line t n = ?body @ [CHR 0x0A]"
    by (simp add: state_line_def)
  moreover have "py_strip (?body @ [CHR 0x0A]) = py_strip ?body"
    by (rule py_strip_snoc_space) (simp add: py_isspace_def)
  ultimately have "py_strip (state_line t n) = py_strip ?body"
    by (simp only:)
  also have "py_strip ?body = ?body"
  proof (rule py_strip_id)
    show "\<not> py_isspace (hd ?body)"
      using assms by (cases t) (simp_all add: plain_name_def py_isspace_def)
    show "\<not> py_isspace (last ?body)"
      using py_str_last [of n] py_str_nonempty [of n] by (simp add: is_digit_facts)
  qed
  finally have "py_strip (state_line t n) = ?body" .
  moreover have "CHR '':'' \<notin> set (py_str n)"
    using py_str_chars [of "CHR '':''" n] by (auto simp: is_digit_def)
  ultimately show ?thesis
    using assms by (simp add: py_split_colon py_split_no_colon plain_name_def)
qed

lemma file_lines_from_state_line:
  assumes "plain_name t"
  shows "file_lines_from [] (state_line t n @ rest) = state_line t n # file_lines_from [] rest"
proof -
  have digits: "CHR 0x0A \<notin> set (py_str n)" "CHR 0x0D \<notin> set (py_str n)"
    using py_str_chars [of "CHR 0x0A" n] py_str_chars [of "CHR 0x0D" n]
    by (auto simp: is_digit_def)
  have "file_lines_from [] ((t @ CHR '':'' # py_str n) @ CHR 0x0A # rest)
          = ([] @ (t @ CHR '':'' # py_str n) @ [CHR 0x0A]) # file_lines_from [] rest"
    using assms digits by (intro file_lines_from_line) (simp_all add: plain_name_def)
  then show ?thesis
    by (simp add: state_line_def)
qed

lemma read_state_lines_write_state:
  "list_all (\<lambda>(t, n). plain_name t) items \<Longrightarrow>
   read_state_lines acc (file_lines_from [] (write_state items))
     = Inr (foldl (\<lambda>d (t, n). dict_set t n d) acc items)"
proof (induction items arbitrary: acc)
  case Nil
  then show ?case by (simp add: write_state_def)
next
  case (Cons item items)
  obtain t n where item: "item = (t, n)"
    by (cases item)
  with Cons.prems have plain: "plain_name t" and rest: "list_all (\<lambda>(t, n). plain_name t) items"
    by simp_all
  have "write_state (item # items) = state_line t n @ write_state items"
    by (simp add: write_state_def item)
  then have "file_lines_from [] (write_state (item # items))
               = state_line t n # file_lines_from [] (write_state items)"
    by (simp add: file_lines_from_state_line [OF plain])
  then show ?case
    using Cons.IH [OF rest] by (simp add: state_line_fields [OF plain] py_int_py_str item)
qed

lemma dict_set_new: "k \<notin> fst ` set d \<Longrightarrow> dict_set k v d = d @ [(k, v)]"
  by (induction d) auto

lemma foldl_dict_set_distinct:
  "distinct (map fst (acc @ items)) \<Longrightarrow>
   foldl (\<lambda>d (t, n). dict_set t n d) acc items = acc @ items"
proof (induction items arbitrary: acc)
  case Nil
  then show ?case by simp
next
  case (Cons item items)
  obtain t n where item: "item = (t, n)"
    by (cases item)
  with Cons.prems have "t \<notin> fst ` set acc"
    by auto
  then have "dict_set t n acc = acc @ [(t, n)]"
    by (rule dict_set_new)
  moreover from Cons.prems have "distinct (map fst ((acc @ [item]) @ items))"
    by simp
  ultimately show ?case
    using Cons.IH [of "acc @ [item]"] by (simp add: item)
qed

lemma read_state_write_state:
  assumes "well_formed state"
  shows "read_state (w\<lparr>state_file := Some (write_state state)\<rparr>) = Inr state"
  using assms read_state_lines_write_state [of state "[]"] foldl_dict_set_distinct [of "[]" state]
  by (simp add: read_state_def file_lines_def well_formed_def)


lemma file_lines_from_breaks:
  "l \<in> set (file_lines_from cur content) \<Longrightarrow> CHR 0x0A \<notin> set cur \<Longrightarrow> CHR 0x0D \<notin> set cur \<Longrightarrow>
   CHR 0x0D \<notin> set l \<and> CHR 0x0A \<notin> set (butlast l)"
proof (induction cur content rule: file_lines_from.induct)
  case (1 cur)
  then show ?case
    by (auto split: if_splits dest: in_set_butlastD)
next
  case (2 cur c cs)
  have done_line: "CHR 0x0D \<notin> set (cur @ [CHR 0x0A]) \<and> CHR 0x0A \<notin> set (butlast (cur @ [CHR 0x0A]))"
    using "2.prems"(2,3) by simp
  show ?case
  proof (cases "c = CHR 0x0A")
    case True
    with "2.prems"(1) have "l = cur @ [CHR 0x0A] \<or> l \<in> set (file_lines_from [] cs)"
      by simp
    then show ?thesis
      using done_line "2.IH"(1) [OF True] by auto
  next
    case lf: False
    show ?thesis
    proof (cases "c = CHR 0x0D")
      case cr: True
      show ?thesis
      proof (cases cs)
        case Nil
        with lf cr "2.prems"(1) have "l = cur @ [CHR 0x0A]"
          by simp
        with done_line show ?thesis
          by simp
      next
        case (Cons d ds)
        show ?thesis
        proof (cases "d = CHR 0x0A")
          case True
          with lf cr Cons "2.prems"(1)
          have "l = cur @ [CHR 0x0A] \<or> l \<in> set (file_lines_from [] ds)"
            by simp
          then show ?thesis
            using done_line "2.IH"(2) [OF lf cr Cons True] by auto
        next
          case False
          with lf cr Cons "2.prems"(1)
          have "l = cur @ [CHR 0x0A] \<or> l \<in> set (file_lines_from [] cs)"
            by simp
          then show ?thesis
            using done_line "2.IH"(3) [OF lf cr Cons False] by auto
        qed
      qed
    next
      case False
      with lf "2.prems"(1) have "l \<in> set (file_lines_from (cur @ [c]) cs)"
        by simp
      then show ?thesis
        using "2.IH"(4) [OF lf False] lf False "2.prems"(2,3) by auto
    qed
  qed
qed

lemma py_strip_breaks:
  assumes "CHR 0x0D \<notin> set l" and "CHR 0x0A \<notin> set (butlast l)"
  shows "CHR 0x0A \<notin> set (py_strip l) \<and> CHR 0x0D \<notin> set (py_strip l)"
proof (cases l rule: rev_cases)
  case Nil
  then show ?thesis by (simp add: py_strip_def strip_where_def)
next
  case (snoc ys y)
  show ?thesis
  proof (cases "py_isspace y")
    case True
    then have "py_strip l = py_strip ys"
      by (simp add: snoc py_strip_snoc_space)
    with assms snoc show ?thesis
      using py_strip_subset [of _ ys] by auto
  next
    case False
    then have "y \<noteq> CHR 0x0A"
      by (auto simp: py_isspace_def)
    with assms snoc have "CHR 0x0A \<notin> set l"
      by simp
    with assms show ?thesis
      using py_strip_subset [of _ l] by blast
  qed
qed

lemma first_field_plain:
  assumes "py_split (py_strip l) = [a, b]"
    and "CHR 0x0D \<notin> set l" and "CHR 0x0A \<notin> set (butlast l)"
  shows "plain_name a"
proof -
  have whole: "py_strip l = a @ CHR '':'' # b"
    using assms(1) by (rule py_split_two)
  have "CHR '':'' \<notin> set a"
    using py_split_parts [of a "py_strip l"] assms(1) by simp
  moreover have "CHR 0x0A \<notin> set a" "CHR 0x0D \<notin> set a"
    using py_strip_breaks [OF assms(2,3)] whole by simp_all
  moreover have "case a of [] \<Rightarrow> True | c # cs \<Rightarrow> \<not> py_isspace c"
  proof (cases a)
    case Nil
    then show ?thesis by simp
  next
    case (Cons c cs)
    then have "hd (py_strip l) = c"
      by (simp add: whole)
    then show ?thesis
      using py_strip_hd [of l] whole Cons by auto
  qed
  ultimately show ?thesis
    by (simp add: plain_name_def)
qed

lemma dict_set_keys: "fst ` set (dict_set k v d) = insert k (fst ` set d)"
proof (induction d)
  case Nil
  then show ?case by simp
next
  case (Cons kv d)
  then show ?case
    by (cases kv) (simp add: insert_commute)
qed

lemma dict_set_distinct: "distinct (map fst d) \<Longrightarrow> distinct (map fst (dict_set k v d))"
  by (induction d) (auto simp: dict_set_keys)

lemma dict_set_plain:
  "list_all (\<lambda>(t, n). plain_name t) d \<Longrightarrow> plain_name k \<Longrightarrow>
   list_all (\<lambda>(t, n). plain_name t) (dict_set k v d)"
  by (induction d) auto

lemma dict_set_well_formed:
  "well_formed d \<Longrightarrow> plain_name k \<Longrightarrow> well_formed (dict_set k v d)"
  by (simp add: well_formed_def dict_set_distinct dict_set_plain)

lemma map_of_dict_set: "map_of (dict_set k v d) = (map_of d)(k \<mapsto> v)"
  by (induction d) auto

lemma read_state_lines_well_formed:
  "read_state_lines acc ls = Inr state \<Longrightarrow> well_formed acc \<Longrightarrow>
   (\<And>l. l \<in> set ls \<Longrightarrow> CHR 0x0D \<notin> set l \<and> CHR 0x0A \<notin> set (butlast l)) \<Longrightarrow>
   well_formed state"
proof (induction ls arbitrary: acc)
  case Nil
  then show ?case by simp
next
  case (Cons l ls)
  let ?parts = "py_split (py_strip l)"
  show ?case
  proof (cases "length ?parts = 2")
    case False
    with Cons.prems(1) have "read_state_lines acc ls = Inr state"
      by (simp add: Let_def)
    then show ?thesis
      using Cons.IH Cons.prems(2,3) by simp
  next
    case True
    then obtain a b where parts: "?parts = [a, b]"
      by (auto simp: length_Suc_conv numeral_2_eq_2)
    with Cons.prems(1) obtain n
      where "py_int b = Some n" and rest: "read_state_lines (dict_set a n acc) ls = Inr state"
      by (auto simp: Let_def split: option.splits)
    have "plain_name a"
      using parts Cons.prems(3) [of l] by (auto intro: first_field_plain)
    with Cons.prems(2) have "well_formed (dict_set a n acc)"
      by (rule dict_set_well_formed)
    with rest show ?thesis
      using Cons.IH Cons.prems(3) by simp
  qed
qed

lemma read_state_well_formed:
  assumes "read_state w = Inr state"
  shows "well_formed state"
proof (cases "state_file w")
  case None
  with assms show ?thesis
    by (simp add: read_state_def well_formed_def)
next
  case (Some content)
  with assms have "read_state_lines [] (file_lines_from [] content) = Inr state"
    by (simp add: read_state_def file_lines_def)
  moreover have "well_formed []"
    by (simp add: well_formed_def)
  moreover have "\<And>l. l \<in> set (file_lines_from [] content) \<Longrightarrow>
      CHR 0x0D \<notin> set l \<and> CHR 0x0A \<notin> set (butlast l)"
    using file_lines_from_breaks [of _ "[]" content] by simp
  ultimately show ?thesis
    by (rule read_state_lines_well_formed)
qed

lemma update_state_read_back:
  assumes "read_state w = Inr state" and "plain_name t"
  shows "update_state t n w = (Inr (), w\<lparr>state_file := Some (write_state (dict_set t n state))\<rparr>)"
    and "read_state (snd (update_state t n w)) = Inr (dict_set t n state)"
proof -
  show written: "update_state t n w = (Inr (), w\<lparr>state_file := Some (write_state (dict_set t n state))\<rparr>)"
    using assms(1) by (simp add: update_state_def)
  have "well_formed (dict_set t n state)"
    using read_state_well_formed [OF assms(1)] assms(2) by (rule dict_set_well_formed)
  then show "read_state (snd (update_state t n w)) = Inr (dict_set t n state)"
    by (simp add: written read_state_write_state)
qed

lemma map_of_foldl_dict_set:
  "map_of (foldl (\<lambda>d (t, n). dict_set t n d) acc items) = map_of acc ++ map_of (rev items)"
proof (induction items arbitrary: acc)
  case Nil
  then show ?case by simp
next
  case (Cons item items)
  obtain t n where item: "item = (t, n)"
    by (cases item)
  show ?case
    using Cons.IH [of "dict_set t n acc"]
    by (auto simp: item map_of_dict_set fun_eq_iff map_add_def split: option.splits)
qed

subsection \<open>Loading the table jobs\<close>

text \<open>
  The dictionary of the servers has a key for each server of \<^verbatim>\<open>Login.json\<close>, each
  leading to an entry with that address. So the loop over the binding lines keeps a line
  exactly when its first field is the address of a server, and appends its job.
\<close>

lemma server_dict_keys_from:
  "fst ` set (foldl (\<lambda>d config. dict_set (cfg_server_ip config) config d) acc server_configs)
     = fst ` set acc \<union> cfg_server_ip ` set server_configs"
  by (induction server_configs arbitrary: acc) (auto simp: dict_set_keys)

lemma dict_set_subset: "set (dict_set k v d) \<subseteq> insert (k, v) (set d)"
  by (induction d) (auto split: if_splits)

lemma dict_set_keyed:
  "\<forall>(k', c') \<in> set d. f c' = k' \<Longrightarrow> f c = k \<Longrightarrow> \<forall>(k', c') \<in> set (dict_set k c d). f c' = k'"
  using dict_set_subset [of k c d] by auto

lemma server_dict_keyed_from:
  "\<forall>(k, c) \<in> set acc. cfg_server_ip c = k \<Longrightarrow>
   \<forall>(k, c) \<in> set (foldl (\<lambda>d config. dict_set (cfg_server_ip config) config d) acc server_configs).
     cfg_server_ip c = k"
proof (induction server_configs arbitrary: acc)
  case Nil
  then show ?case by simp
next
  case (Cons config server_configs)
  from Cons.prems have "\<forall>(k, c) \<in> set (dict_set (cfg_server_ip config) config acc). cfg_server_ip c = k"
    by (rule dict_set_keyed) simp
  then show ?case
    using Cons.IH by simp
qed

lemma server_dict_of_keys: "fst ` set (server_dict_of cs) = cfg_server_ip ` set cs"
  by (simp add: server_dict_of_def server_dict_keys_from)

lemma server_dict_of_lookup: "map_of (server_dict_of cs) ip = Some c \<Longrightarrow> cfg_server_ip c = ip"
  using server_dict_keyed_from [of "[]" cs] by (auto simp: server_dict_of_def dest!: map_of_SomeD)

lemma load_table_lines_fields:
  "load_table_lines (server_dict_of cs) acc ls = Inr jobs \<Longrightarrow>
   map job_fields jobs =
     map job_fields acc @
     filter (\<lambda>parts. hd parts \<in> cfg_server_ip ` set cs) (map (\<lambda>l. py_split (py_strip l)) ls)"
proof (induction ls arbitrary: acc)
  case Nil
  then show ?case by simp
next
  case (Cons l ls)
  let ?parts = "py_split (py_strip l)"
  from Cons.prems have three: "length ?parts = 3"
    by (auto simp: Let_def split: if_splits)
  then obtain a b c where parts: "?parts = [a, b, c]"
    by (auto simp: length_Suc_conv numeral_3_eq_3)
  show ?case
  proof (cases "map_of (server_dict_of cs) a")
    case None
    then have "a \<notin> cfg_server_ip ` set cs"
      using server_dict_of_keys [of cs] by (simp add: map_of_eq_None_iff)
    moreover from None Cons.prems parts
    have "load_table_lines (server_dict_of cs) acc ls = Inr jobs"
      by (simp add: Let_def)
    ultimately show ?thesis
      using Cons.IH [of acc] parts by simp
  next
    case (Some config)
    then have ip: "cfg_server_ip config = a"
      by (rule server_dict_of_lookup)
    have "a \<in> cfg_server_ip ` set cs"
      using Some server_dict_of_keys [of cs] by (metis map_of_eq_None_iff option.distinct(1))
    moreover from Some Cons.prems parts
    have "load_table_lines (server_dict_of cs)
            (acc @ [\<lparr>server_ip = cfg_server_ip config, user = cfg_user config,
                     database = b, table = c\<rparr>]) ls = Inr jobs"
      by (simp add: Let_def)
    ultimately show ?thesis
      using Cons.IH [of "acc @ [\<lparr>server_ip = cfg_server_ip config, user = cfg_user config,
                     database = b, table = c\<rparr>]"] parts ip
      by (simp add: job_fields_def)
  qed
qed

text \<open>
  C9. When \<^verbatim>\<open>load_table_configs\<close> returns, its jobs are, field by field and in file
  order, the binding lines whose server is in \<^verbatim>\<open>Login.json\<close>: a line with another
  server gives no job. The state file \<^verbatim>\<open>create_state_file\<close> then writes has one line
  for each of these bindings and for no other.
\<close>

theorem load_table_configs_order:
  assumes "load_table_configs e = Inr jobs"
  shows "map job_fields jobs = filter (resolved e) (binding_lines e) \<and>
         (state_file w = None \<longrightarrow>
            state_file (create_state_file jobs w) =
              Some (concat (map (\<lambda>parts. state_line (parts ! 2) 0)
                              (filter (resolved e) (binding_lines e)))))"
proof -
  have fields: "map job_fields jobs = filter (resolved e) (binding_lines e)"
    using load_table_lines_fields [of "login_json e" "[]" "file_lines (tables_txt e)" jobs] assms
    by (simp add: load_table_configs_def binding_lines_def resolved_def [abs_def])
  have "map (\<lambda>config. state_line (table config) 0) jobs
          = map (\<lambda>parts. state_line (parts ! 2) 0) (map job_fields jobs)"
    by (simp add: job_fields_def)
  with fields show ?thesis
    by (simp add: create_state_file_def)
qed

theorem load_table_configs_order_witness:
  "load_table_configs (example_env mixed_bindings (ConnectEx 0) answering_db)
     = Inr [orders_job, spaced_job] \<and>
   binding_lines (example_env mixed_bindings (ConnectEx 0) answering_db)
     = [[''10.0.0.1'', ''SalesDB'', ''Orders''], [''9.9.9.9'', ''Other'', ''Skipped''],
        [''10.0.0.1'', ''SalesDB'', '' Orders'']] \<and>
   map job_fields [orders_job, spaced_job]
     = [[''10.0.0.1'', ''SalesDB'', ''Orders''], [''10.0.0.1'', ''SalesDB'', '' Orders'']] \<and>
   state_file (create_state_file [orders_job, spaced_job] (fresh_world None))
     = Some ''Orders:0\<newline> Orders:0\<newline>''"
proof -
  let ?e = "example_env mixed_bindings (ConnectEx 0) answering_db"
  have loaded: "load_table_configs ?e = Inr [orders_job, spaced_job]"
    by code_simp
  have lines: "binding_lines ?e
     = [[''10.0.0.1'', ''SalesDB'', ''Orders''], [''9.9.9.9'', ''Other'', ''Skipped''],
        [''10.0.0.1'', ''SalesDB'', '' Orders'']]"
    by code_simp
  have kept: "filter (resolved ?e) (binding_lines ?e)
     = [[''10.0.0.1'', ''SalesDB'', ''Orders''], [''10.0.0.1'', ''SalesDB'', '' Orders'']]"
    by code_simp
  have written: "concat (map (\<lambda>parts. state_line (parts ! 2) 0)
            [[''10.0.0.1'', ''SalesDB'', ''Orders''], [''10.0.0.1'', ''SalesDB'', '' Orders'']])
          = ''Orders:0\<newline> Orders:0\<newline>''"
    by code_simp
  have missing: "state_file (fresh_world None) = None"
    by (simp add: fresh_world_def)
  note order = load_table_configs_order [OF loaded, of "fresh_world None"]
  from order have fields: "map job_fields [orders_job, spaced_job]
     = [[''10.0.0.1'', ''SalesDB'', ''Orders''], [''10.0.0.1'', ''SalesDB'', '' Orders'']]"
    by (simp only: kept)
  from order missing
  have "state_file (create_state_file [orders_job, spaced_job] (fresh_world None))
          = Some (concat (map (\<lambda>parts. state_line (parts ! 2) 0)
                            (filter (resolved ?e) (binding_lines ?e))))"
    by blast
  then have "state_file (create_state_file [orders_job, spaced_job] (fresh_world None))
          = Some ''Orders:0\<newline> Orders:0\<newline>''"
    by (simp only: kept written)
  with loaded lines fields show ?thesis
    by blast
qed

subsection \<open>A commit for a name the state file gives back\<close>

text \<open>
  For a table name without colon or line break that does not start with whitespace,
  \<^verbatim>\<open>update_state\<close> sets the entry of the table and leaves every other entry as
  \<^verbatim>\<open>read_state\<close> gave it.
\<close>

lemma update_state_frame:
  assumes "read_state w = Inr state" and "plain_name t"
  shows "fst (update_state t n w) = Inr () \<and>
         stored_entry (snd (update_state t n w)) t = Inr (Some n) \<and>
         (t' \<noteq> t \<longrightarrow> stored_entry (snd (update_state t n w)) t' = Inr (map_of state t'))"
  using update_state_read_back [OF assms, of n]
  by (simp add: stored_entry_def map_of_dict_set)

subsection \<open>A table name written after a blank\<close>

text \<open>
  \<^verbatim>\<open>load_table_configs\<close> strips the binding line, not its fields: the line
  \<^verbatim>\<open>10.0.0.1:SalesDB: Orders\<close> gives the table name \<^verbatim>\<open>Orders\<close> with a leading blank.
  Both writers of the state file put the name at the start of a line, and
  \<^verbatim>\<open>read_state\<close> strips the line: the entry comes back under the name without the
  blank.
\<close>

text \<open>
  C5. \<^verbatim>\<open>update_state\<close> for the table name with the leading blank and the value 3, on a
  state file with the entry 10 for \<^verbatim>\<open>Orders\<close>: afterwards the dictionary read has no
  entry for the name that was committed, and the entry of the other table, \<^verbatim>\<open>Orders\<close>,
  is 3 instead of 10.
\<close>

theorem update_state_spaced_name_overwrites_other:
  "stored_entry (fresh_world (Some ''Orders:10\<newline>'')) ''Orders'' = Inr (Some 10) \<and>
   fst (update_state '' Orders'' 3 (fresh_world (Some ''Orders:10\<newline>''))) = Inr () \<and>
   state_file (snd (update_state '' Orders'' 3 (fresh_world (Some ''Orders:10\<newline>''))))
     = Some ''Orders:10\<newline> Orders:3\<newline>'' \<and>
   stored_entry (snd (update_state '' Orders'' 3 (fresh_world (Some ''Orders:10\<newline>''))))
     '' Orders'' = Inr None \<and>
   stored_entry (snd (update_state '' Orders'' 3 (fresh_world (Some ''Orders:10\<newline>''))))
     ''Orders'' = Inr (Some 3)"
  by code_simp

subsection \<open>Creating the state file\<close>

lemma map_of_zero_items:
  assumes "t \<in> set ts"
  shows "map_of (foldl (\<lambda>d (t, n). dict_set t n d) [] (map (\<lambda>t. (t, 0 :: int)) ts)) t = Some 0"
proof -
  let ?items = "map (\<lambda>t. (t, 0 :: int)) ts"
  have "t \<in> fst ` set (rev ?items)"
    using assms by force
  then obtain n where found: "map_of (rev ?items) t = Some n"
    by (metis map_of_eq_None_iff not_Some_eq)
  then have "(t, n) \<in> set (rev ?items)"
    by (rule map_of_SomeD)
  then have "n = 0"
    by auto
  with found show ?thesis
    by (simp add: map_of_foldl_dict_set)
qed

lemma create_state_file_entries:
  assumes "state_file w = None" and "list_all (\<lambda>config. plain_name (table config)) jobs"
  shows "list_all (\<lambda>config. stored_entry (create_state_file jobs w) (table config) = Inr (Some 0)) jobs"
proof -
  let ?items = "map (\<lambda>t. (t, 0 :: int)) (map table jobs)"
  have written: "concat (map (\<lambda>config. state_line (table config) 0) jobs) = write_state ?items"
    by (simp add: write_state_def comp_def)
  have plain: "list_all (\<lambda>(t, n). plain_name t) ?items"
    using assms(2) by (simp add: list_all_iff)
  have "read_state (create_state_file jobs w)
      = Inr (foldl (\<lambda>d (t, n). dict_set t n d) [] ?items)"
    using assms(1) read_state_lines_write_state [OF plain, of "[]"]
    by (simp add: create_state_file_def read_state_def file_lines_def written del: map_map)
  then show ?thesis
    using map_of_zero_items [of _ "map table jobs"]
    by (simp add: stored_entry_def list_all_iff)
qed

text \<open>
  C3 as the code has it. \<^verbatim>\<open>create_state_file\<close> looks at the file, not at its entries.
  When there is no state file it writes one line \<^verbatim>\<open>table:0\<close> for each job, in the
  order of the jobs; and when no table name of the jobs starts with whitespace or has a
  colon or a line break in it, the table of each job then reads back with the entry 0.
  When the file exists it changes nothing, whatever the entries and whatever the jobs;
  so after one call any further call changes nothing.
\<close>

theorem create_state_file_only_when_absent:
  "(state_file w = None \<longrightarrow>
      create_state_file jobs w =
        w\<lparr>state_file := Some (concat (map (\<lambda>config. state_line (table config) 0) jobs))\<rparr>) \<and>
   (state_file w = None \<longrightarrow> list_all (\<lambda>config. plain_name (table config)) jobs \<longrightarrow>
      list_all (\<lambda>config. stored_entry (create_state_file jobs w) (table config) = Inr (Some 0))
        jobs) \<and>
   (state_file w \<noteq> None \<longrightarrow> create_state_file jobs w = w) \<and>
   create_state_file jobs' (create_state_file jobs w) = create_state_file jobs w"
  using create_state_file_entries [of w jobs]
  by (simp add: create_state_file_def)

theorem create_state_file_only_when_absent_witness:
  "state_file (fresh_world None) = None \<and>
   list_all (\<lambda>config. plain_name (table config)) [orders_job] \<and>
   create_state_file [orders_job] (fresh_world None) = fresh_world (Some ''Orders:0\<newline>'') \<and>
   stored_entry (create_state_file [orders_job] (fresh_world None)) (table orders_job)
     = Inr (Some 0) \<and>
   state_file (fresh_world (Some ''Customers:5\<newline>'')) \<noteq> None \<and>
   create_state_file [orders_job] (fresh_world (Some ''Customers:5\<newline>''))
     = fresh_world (Some ''Customers:5\<newline>'') \<and>
   create_state_file [spaced_job] (create_state_file [orders_job] (fresh_world None))
     = create_state_file [orders_job] (fresh_world None)"
proof -
  have missing: "state_file (fresh_world None) = None"
    by (simp add: fresh_world_def)
  have there: "state_file (fresh_world (Some ''Customers:5\<newline>'')) \<noteq> None"
    by (simp add: fresh_world_def)
  have plain: "list_all (\<lambda>config. plain_name (table config)) [orders_job]"
    by code_simp
  have line: "concat (map (\<lambda>config. state_line (table config) 0) [orders_job]) = ''Orders:0\<newline>''"
    by code_simp
  note absent = create_state_file_only_when_absent [of "fresh_world None" "[orders_job]" "[spaced_job]"]
  note present = create_state_file_only_when_absent
      [of "fresh_world (Some ''Customers:5\<newline>'')" "[orders_job]" "[spaced_job]"]
  from absent missing have "create_state_file [orders_job] (fresh_world None)
      = (fresh_world None)\<lparr>state_file := Some ''Orders:0\<newline>''\<rparr>"
    by (simp only: line)
  then have created: "create_state_file [orders_job] (fresh_world None) = fresh_world (Some ''Orders:0\<newline>'')"
    by (simp add: fresh_world_def)
  from absent missing plain
  have "list_all (\<lambda>config. stored_entry (create_state_file [orders_job] (fresh_world None))
                              (table config) = Inr (Some 0)) [orders_job]"
    by blast
  then have entry: "stored_entry (create_state_file [orders_job] (fresh_world None)) (table orders_job)
      = Inr (Some 0)"
    by simp
  from present there have kept: "create_state_file [orders_job] (fresh_world (Some ''Customers:5\<newline>''))
      = fresh_world (Some ''Customers:5\<newline>'')"
    by blast
  from absent have again: "create_state_file [spaced_job] (create_state_file [orders_job] (fresh_world None))
      = create_state_file [orders_job] (fresh_world None)"
    by blast
  from missing plain created entry there kept again show ?thesis
    by blast
qed

text \<open>
  C3 as stated fails: with a state file that has an entry for \<^verbatim>\<open>Customers\<close> only, the
  job for \<^verbatim>\<open>Orders\<close> has no entry before \<^verbatim>\<open>create_state_file\<close> and none after it.
\<close>

theorem create_state_file_existing_file_no_entry:
  "stored_entry (fresh_world (Some ''Customers:5\<newline>'')) (table orders_job) = Inr None \<and>
   stored_entry (create_state_file [orders_job] (fresh_world (Some ''Customers:5\<newline>'')))
      (table orders_job) = Inr None"
  by code_simp

text \<open>
  The condition on the names is needed: the line written for the job with the table name
  after a blank is read back under the name without the blank, and the job has no entry.
\<close>

lemma create_state_file_spaced_name_no_entry:
  "state_file (create_state_file [spaced_job] (fresh_world None)) = Some '' Orders:0\<newline>'' \<and>
   stored_entry (create_state_file [spaced_job] (fresh_world None)) (table spaced_job) = Inr None \<and>
   stored_entry (create_state_file [spaced_job] (fresh_world None)) ''Orders'' = Inr (Some 0)"
  by code_simp

subsection \<open>What forwarding does\<close>

text \<open>
  The constructor of the handler has no parameter \<^verbatim>\<open>ssl\<close>. Every call of
  \<^verbatim>\<open>send_to_syslog\<close> raises \<^verbatim>\<open>TypeError\<close> there, before the state is read: nothing is
  sent, no handler is attached and \<^verbatim>\<open>update_state\<close>, which the program calls nowhere
  else, is not reached. The loop of \<^verbatim>\<open>main\<close> ends at the first job that has rows, and
  leaves the state file as it found it.
\<close>

lemma send_to_syslog_raises: "send_to_syslog e data config w = (Inl TypeError, w)"
  by (simp add: send_to_syslog_def SysLogHandler_def SysLogHandler_parameters_def)




text \<open>
  C1. A state file with the offset 1 for \<^verbatim>\<open>Orders\<close> and three rows fetched, so two rows
  are new: \<^verbatim>\<open>send_to_syslog\<close> raises \<^verbatim>\<open>TypeError\<close>, sends no record and leaves the
  offset at 1, where one summary record and two detail records were to be sent and the
  offset was to become 3.
\<close>

theorem send_to_syslog_sends_nothing:
  "stored_offset (fresh_world (Some ''Orders:1\<newline>'')) (table orders_job) = Inr 1 \<and>
   length three_rows = 3 \<and>
   send_to_syslog (example_env [] (ConnectEx 0) answering_db) three_rows orders_job
       (fresh_world (Some ''Orders:1\<newline>''))
     = (Inl TypeError, fresh_world (Some ''Orders:1\<newline>'')) \<and>
   emitted (example_env [] (ConnectEx 0) answering_db) three_rows orders_job
       (fresh_world (Some ''Orders:1\<newline>'')) = [] \<and>
   stored_offset
     (snd (send_to_syslog (example_env [] (ConnectEx 0) answering_db) three_rows orders_job
             (fresh_world (Some ''Orders:1\<newline>''))))
     (table orders_job) = Inr 1"
  by code_simp


text \<open>
  C8. A second call of \<^verbatim>\<open>send_to_syslog\<close> with the same rows sends no record and
  leaves the offset stored for every table as the first call left it.
\<close>

theorem send_to_syslog_second_run:
  "emitted e data config (snd (send_to_syslog e data config w)) = [] \<and>
   stored_offset
     (snd (send_to_syslog e data config (snd (send_to_syslog e data config w)))) t
     = stored_offset (snd (send_to_syslog e data config w)) t"
  by (simp add: emitted_def send_to_syslog_raises)

text \<open>
  C10. A state file without an entry for \<^verbatim>\<open>Orders\<close> and three rows fetched:
  \<^verbatim>\<open>send_to_syslog\<close> raises \<^verbatim>\<open>TypeError\<close>, sends no record and creates no entry, where
  all three rows were to be sent and an entry 3 to be created.
\<close>

theorem send_to_syslog_creates_no_entry:
  "stored_entry (fresh_world (Some ''Customers:7\<newline>'')) (table orders_job) = Inr None \<and>
   length three_rows = 3 \<and>
   fst (send_to_syslog (example_env [] (ConnectEx 0) answering_db) three_rows orders_job
          (fresh_world (Some ''Customers:7\<newline>''))) = Inl TypeError \<and>
   emitted (example_env [] (ConnectEx 0) answering_db) three_rows orders_job
       (fresh_world (Some ''Customers:7\<newline>'')) = [] \<and>
   stored_entry
     (snd (send_to_syslog (example_env [] (ConnectEx 0) answering_db) three_rows orders_job
             (fresh_world (Some ''Customers:7\<newline>''))))
     (table orders_job) = Inr None"
  by code_simp

end
